theory Spec2Isabelle
  imports Complex_Main "HOL-Library.Sublist" "HOL-Library.Multiset"
begin

section \<open>The Bloom's-level classifier of app/routes\_vialli.py\<close>

text \<open>
  The development follows \<^verbatim>\<open>analyze_question_blooms_level\<close> and its helpers.
  Conventions of the embedding:
  \<^item> a Python \<^verbatim>\<open>str\<close> is a \<^typ>\<open>string\<close> whose characters are read as ASCII code
    points; characters above 127 are plain symbols (neither whitespace, nor word
    characters, nor letters with a case);
  \<^item> a Python \<^verbatim>\<open>float\<close> is an exact rational (\<^typ>\<open>rat\<close>): the constants of the
    source are the decimal fractions written there and arithmetic does not round;
  \<^item> the dictionary \<^verbatim>\<open>level_scores\<close> always holds the six level names, in the
    insertion order of \<^verbatim>\<open>blooms_processes\<close>; it is a function on the six levels and
    \<^verbatim>\<open>all_levels\<close> is its iteration order;
  \<^item> an argument that may be Python's \<^verbatim>\<open>None\<close> is an \<^typ>\<open>'a option\<close>; an exception
    is a value of type \<open>py_error\<close>.
\<close>

subsection \<open>Characters and strings\<close>

definition is_upper :: "char \<Rightarrow> bool" where
  "is_upper c = (let n = (of_char c :: nat) in 65 \<le> n \<and> n \<le> 90)"

definition is_lower :: "char \<Rightarrow> bool" where
  "is_lower c = (let n = (of_char c :: nat) in 97 \<le> n \<and> n \<le> 122)"

definition is_digit :: "char \<Rightarrow> bool" where
  "is_digit c = (let n = (of_char c :: nat) in 48 \<le> n \<and> n \<le> 57)"

definition is_word :: "char \<Rightarrow> bool" where
  \<comment> \<open>the class \<^verbatim>\<open>\w\<close>\<close>
  "is_word c = (is_lower c \<or> is_upper c \<or> is_digit c \<or> c = CHR ''_'')"

definition is_space :: "char \<Rightarrow> bool" where
  \<comment> \<open>\<^verbatim>\<open>str.isspace\<close> and the class \<^verbatim>\<open>\s\<close>: tab to carriage return, the four
     separators 28 to 31, and the blank\<close>
  "is_space c = (let n = (of_char c :: nat) in (9 \<le> n \<and> n \<le> 13) \<or> (28 \<le> n \<and> n \<le> 32))"

definition not_newline :: "char \<Rightarrow> bool" where
  \<comment> \<open>what \<^verbatim>\<open>.\<close> matches\<close>
  "not_newline c = (c \<noteq> CHR 0x0A)"

definition lower_char :: "char \<Rightarrow> char" where
  "lower_char c = (if is_upper c then char_of (of_char c + (32::nat)) else c)"

definition lower :: "string \<Rightarrow> string" where
  \<comment> \<open>\<^verbatim>\<open>str.lower\<close>\<close>
  "lower s = map lower_char s"

definition strip :: "string \<Rightarrow> string" where
  \<comment> \<open>\<^verbatim>\<open>str.strip()\<close>\<close>
  "strip s = rev (dropWhile is_space (rev (dropWhile is_space s)))"

fun split_from :: "string \<Rightarrow> string \<Rightarrow> string list" where
  "split_from cur [] = (if cur = [] then [] else [rev cur])"
| "split_from cur (c # cs) =
     (if is_space c then (if cur = [] then split_from [] cs else rev cur # split_from [] cs)
      else split_from (c # cur) cs)"

definition split :: "string \<Rightarrow> string list" where
  \<comment> \<open>\<^verbatim>\<open>str.split()\<close>: the maximal runs of non-whitespace\<close>
  "split s = split_from [] s"

definition sub_punct :: "string \<Rightarrow> string" where
  \<comment> \<open>\<^verbatim>\<open>re.sub(r'[^\w\s]', ' ', s)\<close>\<close>
  "sub_punct s = map (\<lambda>c. if \<not> is_word c \<and> \<not> is_space c then CHR '' '' else c) s"

fun sub_spaces_from :: "bool \<Rightarrow> string \<Rightarrow> string" where
  "sub_spaces_from in_run [] = []"
| "sub_spaces_from in_run (c # cs) =
     (if is_space c then (if in_run then sub_spaces_from True cs
                          else CHR '' '' # sub_spaces_from True cs)
      else c # sub_spaces_from False cs)"

definition sub_spaces :: "string \<Rightarrow> string" where
  \<comment> \<open>\<^verbatim>\<open>re.sub(r'\s+', ' ', s)\<close>: every run of whitespace becomes one blank\<close>
  "sub_spaces s = sub_spaces_from False s"

text \<open>
  \<^verbatim>\<open>w in s\<close> on strings is \<^const>\<open>sublist\<close> and \<^verbatim>\<open>s.startswith(w)\<close> is
  \<^const>\<open>prefix\<close>, both of the library and both executable.
\<close>

subsection \<open>Regular expressions\<close>

text \<open>
  The fragment of Python's \<^verbatim>\<open>re\<close> syntax that the source uses: literals, groups of
  alternatives, \<^verbatim>\<open>.*\<close>, character classes with \<^verbatim>\<open>+\<close>, the anchor \<^verbatim>\<open>^\<close> (no
  MULTILINE flag: start of the string only) and the word boundary \<^verbatim>\<open>\b\<close>.
  A matcher state is the text before the position, reversed, and the text after it.
  \<open>rx_match\<close> lists the states a match can end in, in the order in which a backtracking
  matcher tries them (left alternative first, longest repetition first).
\<close>

datatype regex =
    Lit string
  | Cls "char \<Rightarrow> bool"
  | Star "char \<Rightarrow> bool"
  | Plus "char \<Rightarrow> bool"
  | Bol
  | WordB
  | Seq regex regex
  | Alt regex regex

fun star_ends :: "(char \<Rightarrow> bool) \<Rightarrow> string \<Rightarrow> string \<Rightarrow> (string \<times> string) list" where
  "star_ends P pre [] = [(pre, [])]"
| "star_ends P pre (c # cs) =
     (if P c then star_ends P (c # pre) cs @ [(pre, c # cs)] else [(pre, c # cs)])"

definition word_boundary :: "string \<Rightarrow> string \<Rightarrow> bool" where
  "word_boundary pre rest =
     ((case pre of [] \<Rightarrow> False | p # _ \<Rightarrow> is_word p) \<noteq>
      (case rest of [] \<Rightarrow> False | c # _ \<Rightarrow> is_word c))"

fun rx_match :: "regex \<Rightarrow> string \<times> string \<Rightarrow> (string \<times> string) list" where
  "rx_match (Lit w) (pre, rest) =
     (if prefix w rest then [(rev w @ pre, drop (length w) rest)] else [])"
| "rx_match (Cls P) (pre, rest) =
     (case rest of [] \<Rightarrow> [] | c # cs \<Rightarrow> if P c then [(c # pre, cs)] else [])"
| "rx_match (Star P) (pre, rest) = star_ends P pre rest"
| "rx_match (Plus P) (pre, rest) =
     (case rest of [] \<Rightarrow> [] | c # cs \<Rightarrow> if P c then star_ends P (c # pre) cs else [])"
| "rx_match Bol (pre, rest) = (if pre = [] then [(pre, rest)] else [])"
| "rx_match WordB (pre, rest) = (if word_boundary pre rest then [(pre, rest)] else [])"
| "rx_match (Seq a b) st = concat (map (rx_match b) (rx_match a st))"
| "rx_match (Alt a b) st = rx_match a st @ rx_match b st"

fun search_from :: "regex \<Rightarrow> string \<Rightarrow> string \<Rightarrow> bool" where
  "search_from r pre [] = (rx_match r (pre, []) \<noteq> [])"
| "search_from r pre (c # cs) = (rx_match r (pre, c # cs) \<noteq> [] \<or> search_from r (c # pre) cs)"

definition re_search :: "regex \<Rightarrow> string \<Rightarrow> bool" where
  \<comment> \<open>the truth value of \<^verbatim>\<open>re.search(pattern, s)\<close>: a match starts somewhere in \<open>s\<close>\<close>
  "re_search r s = search_from r [] s"

text \<open>
  \<^verbatim>\<open>re.findall\<close> for a pattern that never matches the empty string: the leftmost match,
  the first one in backtracking order, then on from its end. \<open>skip\<close> counts the
  characters of the last match still to be stepped over.
\<close>

fun findall_from :: "regex \<Rightarrow> nat \<Rightarrow> string \<Rightarrow> string \<Rightarrow> string list" where
  "findall_from r skip pre [] = []"
| "findall_from r skip pre (c # cs) =
     (case skip of
        Suc k \<Rightarrow> findall_from r k (c # pre) cs
      | 0 \<Rightarrow>
         (case rx_match r (pre, c # cs) of
            [] \<Rightarrow> findall_from r 0 (c # pre) cs
          | (pre', rest') # _ \<Rightarrow>
              let n = length (c # cs) - length rest'
              in take n (c # cs) # findall_from r (n - 1) (c # pre) cs))"

definition re_findall :: "regex \<Rightarrow> string \<Rightarrow> string list" where
  "re_findall r s = findall_from r 0 [] s"

text \<open>Writing patterns: a sequence of parts, a group of literal alternatives, \<^verbatim>\<open>(.*)\<close>.\<close>

fun seqs :: "regex list \<Rightarrow> regex" where
  "seqs [] = Lit []"
| "seqs [r] = r"
| "seqs (r # rs) = Seq r (seqs rs)"

fun alts :: "string list \<Rightarrow> regex" where
  "alts [] = Cls (\<lambda>c. False)"
| "alts [w] = Lit w"
| "alts (w # ws) = Alt (Lit w) (alts ws)"

definition any_star :: regex where
  "any_star = Star not_newline"

definition keyword_regex :: "string \<Rightarrow> regex" where
  \<comment> \<open>\<^verbatim>\<open>r'\b' + re.escape(keyword) + r'\b'\<close>; the keywords are letters and blanks\<close>
  "keyword_regex keyword = Seq WordB (Seq (Lit keyword) WordB)"

subsection \<open>Cognitive levels and the score board\<close>

datatype level = Remembering | Understanding | Applying | Analyzing | Evaluating | Creating

definition all_levels :: "level list" where
  "all_levels = [Remembering, Understanding, Applying, Analyzing, Evaluating, Creating]"

fun level_name :: "level \<Rightarrow> string" where
  "level_name Remembering = ''Remembering''"
| "level_name Understanding = ''Understanding''"
| "level_name Applying = ''Applying''"
| "level_name Analyzing = ''Analyzing''"
| "level_name Evaluating = ''Evaluating''"
| "level_name Creating = ''Creating''"

type_synonym score_board = "level \<Rightarrow> rat"

definition score_values :: "score_board \<Rightarrow> rat list" where
  \<comment> \<open>\<^verbatim>\<open>level_scores.values()\<close>\<close>
  "score_values s = map s all_levels"

subsection \<open>The level profiles (\<^verbatim>\<open>blooms_processes\<close>)\<close>

record level_profile =
  keywords' :: "string list"
  question_patterns :: "regex list"
  verbs :: "string list"
  weight :: rat
  complexity_threshold :: rat

fun blooms_processes :: "level \<Rightarrow> level_profile" where
  "blooms_processes Remembering = \<lparr>
     keywords' = [
       ''recall'', ''list'', ''define'', ''identify'', ''name'', ''state'', ''recognize'',
       ''select'', ''match'', ''memorize'', ''what is the'', ''what are the'', ''who was'',
       ''when did'', ''where is''],
     question_patterns = [
       seqs [Bol, Lit ''what is the '', alts [''name'', ''value'', ''date'', ''capital'', ''definition'']],
       seqs [Bol, Lit ''what are the '', alts [''three'', ''four'', ''key''], Lit '' '', alts [''steps'', ''parts'', ''types'']],
       seqs [Bol, Lit ''who '', alts [''is'', ''was''], Lit '' '', alts [''the'', ''a'']],
       seqs [Bol, Lit ''when did '', Alt (Lit ''the'') any_star, Lit '' '', alts [''happen'', ''occur'', ''start'']],
       seqs [Bol, Lit ''where is '', Alt (Lit ''the'') any_star, Lit '' '', alts [''located'', ''found'']],
       seqs [Bol, Lit ''name '', alts [''all'', ''the'', ''three'']],
       seqs [Bol, Lit ''list '', alts [''the'', ''all'', ''three'']],
       seqs [Bol, Lit ''define''],
       seqs [Bol, Lit ''what was the '', alts [''first'', ''last'', ''result'']]],
     verbs = [
       ''is'', ''are'', ''was'', ''were'', ''did'', ''does'', ''has'', ''have''],
     weight = 1,
     complexity_threshold = 1/5 \<rparr>"
| "blooms_processes Understanding = \<lparr>
     keywords' = [
       ''explain'', ''summarize'', ''interpret'', ''paraphrase'', ''classify'', ''describe'',
       ''discuss'', ''restate'', ''translate'', ''outline'', ''main idea'',
       ''in your own words'', ''difference between''],
     question_patterns = [
       seqs [Lit ''explain '', alts [''why'', ''how'']],
       Lit ''summarize'',
       seqs [Lit ''what does '', any_star, Lit '' mean''],
       Lit ''in your own words'',
       Lit ''how would you describe'',
       Lit ''what is the main idea'',
       Lit ''what is the purpose of'',
       Lit ''give an example of'',
       Lit ''what can you infer from'',
       seqs [Lit ''how does '', any_star, Lit '' work''],
       seqs [Lit ''how '', any_star, Lit '' works''],
       seqs [Lit ''why is '', any_star, Lit '' important''],
       seqs [Lit ''how would you explain '', any_star],
       Lit ''what happens when'',
       Lit ''what is the difference between'',
       Lit ''what are the differences between'',
       Lit ''distinguish between'',
       seqs [Lit ''how is '', any_star, Lit '' different from'']],
     verbs = [
       ''explain'', ''describe'', ''summarize'', ''interpret'', ''discuss'', ''paraphrase'',
       ''distinguish'', ''breakdown''],
     weight = 6/5,
     complexity_threshold = 2/5 \<rparr>"
| "blooms_processes Applying = \<lparr>
     keywords' = [
       ''use'', ''apply'', ''implement'', ''solve'', ''demonstrate'', ''show how'', ''employ'',
       ''illustrate'', ''execute'', ''calculate'', ''model''],
     question_patterns = [
       seqs [Lit ''how would you use '', any_star, Lit '' to''],
       Lit ''what would happen if'',
       seqs [Lit ''how would you solve '', alts [''this'', ''the following''], Lit '' problem''],
       seqs [Lit ''demonstrate how '', alts [''to'', ''you'']],
       seqs [Lit ''apply '', alts [''the'', ''this''], Lit '' '', alts [''principle'', ''rule'', ''law''], Lit '' '', alts [''to'', ''for'']],
       Lit ''solve for'',
       seqs [Lit ''use '', any_star, Lit '' to '', alts [''show'', ''demonstrate'', ''solve'']],
       Lit ''calculate the'',
       seqs [Lit ''perform '', alts [''the'', ''a''], Lit '' '', alts [''calculation'', ''procedure'', ''experiment'']],
       seqs [Lit ''carry out '', alts [''the'', ''this''], Lit '' '', alts [''task'', ''process'']]],
     verbs = [
       ''use'', ''apply'', ''solve'', ''demonstrate'', ''implement'', ''calculate''],
     weight = 13/10,
     complexity_threshold = 1/2 \<rparr>"
| "blooms_processes Analyzing = \<lparr>
     keywords' = [
       ''analyze'', ''compare'', ''contrast'', ''differentiate'', ''examine'', ''investigate'',
       ''categorize'', ''organize'', ''deduce'', ''distinguish'', ''relationship'', ''cause'',
       ''effect'', ''similarities between''],
     question_patterns = [
       Lit ''what are the similarities between'',
       Lit ''compare and contrast'',
       seqs [Lit ''analyze '', alts [''how'', ''why'']],
       Lit ''why do you think'',
       Lit ''what evidence supports'',
       seqs [Lit ''how is '', any_star, Lit '' related to''],
       Lit ''what factors contribute to'',
       Lit ''break down'',
       Lit ''examine the causes of'',
       Lit ''what is the relationship between'',
       seqs [Lit ''why is '', any_star, Lit '' different from''],
       seqs [Lit ''how would you categorize '', any_star],
       seqs [Lit ''what components make up '', any_star],
       Lit ''what is the underlying cause of'',
       seqs [Lit ''how does '', any_star, Lit '' influence '', any_star],
       seqs [Lit ''what assumptions underlie '', any_star]],
     verbs = [
       ''analyze'', ''compare'', ''contrast'', ''examine'', ''investigate'', ''categorize'',
       ''differentiate''],
     weight = 7/5,
     complexity_threshold = 7/10 \<rparr>"
| "blooms_processes Evaluating = \<lparr>
     keywords' = [
       ''evaluate'', ''judge'', ''critique'', ''justify'', ''defend'', ''argue'', ''assess'',
       ''rate'', ''recommend'', ''appraise'', ''prioritize'', ''opinion'', ''do you agree''],
     question_patterns = [
       seqs [Lit ''do you agree '', alts [''with'', ''that'']],
       seqs [Lit ''what is your opinion '', alts [''on'', ''about'']],
       seqs [Lit ''how effective '', alts [''is'', ''was'']],
       seqs [Lit ''justify your '', alts [''answer'', ''position'']],
       seqs [Lit ''defend your '', alts [''position'', ''argument'']],
       seqs [Lit ''critique '', alts [''the'', ''this'']],
       seqs [Lit ''evaluate '', alts [''the'', ''this''], Lit '' '', alts [''decision'', ''method'']],
       seqs [Lit ''which is '', alts [''better'', ''more effective'']],
       Lit ''what would you recommend'',
       seqs [Lit ''assess the '', alts [''value'', ''validity'']],
       Lit ''rate the importance of'',
       seqs [Lit ''which option '', alts [''is'', ''would be''], Lit '' best''],
       seqs [Lit ''how would you improve '', any_star],
       Lit ''do the benefits outweigh the risks''],
     verbs = [
       ''evaluate'', ''judge'', ''critique'', ''justify'', ''defend'', ''assess'', ''recommend''],
     weight = 3/2,
     complexity_threshold = 4/5 \<rparr>"
| "blooms_processes Creating = \<lparr>
     keywords' = [
       ''create'', ''design'', ''develop'', ''generate'', ''produce'', ''hypothesize'',
       ''plan'', ''construct'', ''invent'', ''compose'', ''formulate'', ''propose'', ''what if''],
     question_patterns = [
       Lit ''how would you design'',
       Lit ''what would you create'',
       seqs [Lit ''can you propose '', alts [''an'', ''a'']],
       seqs [Lit ''develop a '', alts [''plan'', ''model'', ''solution'']],
       seqs [Lit ''create a '', alts [''solution'', ''product'', ''story'']],
       Lit ''hypothesize what would happen if'',
       seqs [Lit ''design '', alts [''a'', ''an'']],
       seqs [Lit ''invent '', alts [''a'', ''an'']],
       seqs [Lit ''compose '', alts [''a'', ''an'']],
       seqs [Lit ''formulate a '', alts [''theory'', ''plan'']],
       Lit ''what if you could'',
       seqs [Lit ''how would you modify '', any_star, Lit '' to''],
       seqs [Lit ''what new '', alts [''method'', ''model'', ''idea''], Lit '' could''],
       seqs [Lit ''develop an alternative to '', any_star]],
     verbs = [
       ''create'', ''design'', ''develop'', ''propose'', ''invent'', ''hypothesize'',
       ''construct''],
     weight = 8/5,
     complexity_threshold = 9/10 \<rparr>"

subsection \<open>\<^verbatim>\<open>_analyze_document_context\<close>\<close>

definition doc_references :: "regex list" where
  "doc_references = [
     seqs [Lit ''according to '', alts [''the'', ''this''], Lit '' '',
           alts [''text'', ''document'', ''passage'', ''reading'', ''author'']],
     seqs [Lit ''based on '', alts [''the'', ''this''], Lit '' '',
           alts [''text'', ''document'', ''passage'', ''reading'']],
     seqs [Lit ''from the '', alts [''text'', ''document'', ''passage'', ''reading'']],
     Lit ''as described in'',
     Lit ''as stated in'',
     seqs [Lit ''the '', alts [''text'', ''document'', ''passage'', ''reading''], Lit '' '',
           alts [''says'', ''states'', ''describes'', ''implies'']],
     Lit ''what evidence in the text'']"

definition content_term_regex :: regex where
  \<comment> \<open>\<^verbatim>\<open>\b([A-Z][a-z]+|[0-9]+)\b\<close>\<close>
  "content_term_regex =
     Seq WordB (Seq (Alt (Seq (Cls is_upper) (Plus is_lower)) (Plus is_digit)) WordB)"

definition analyze_document_context :: "string \<Rightarrow> string \<Rightarrow> level \<Rightarrow> rat" where
  "analyze_document_context question_text document_text level =
     (let question_lower = lower question_text;
          score1 = (if list_ex (\<lambda>pattern. re_search pattern question_lower) doc_references
                    then (if level \<in> {Analyzing, Evaluating} then 5/2 else 1)
                    else 0);
          score2 = (if level = Creating \<and> document_text \<noteq> [] \<and>
                       (sublist ''create a new'' question_lower \<or>
                        sublist ''design an alternative'' question_lower) \<and>
                       list_ex (\<lambda>term. sublist (lower term) document_text)
                         (re_findall content_term_regex question_text)
                    then 3/2 else 0)
      in score1 + score2)"

subsection \<open>\<^verbatim>\<open>_analyze_question_complexity\<close>\<close>

definition word_count :: "string \<Rightarrow> nat" where
  \<comment> \<open>\<^verbatim>\<open>len(question_text.split())\<close>\<close>
  "word_count question_text = length (split question_text)"

definition has_subordination :: "string \<Rightarrow> bool" where
  "has_subordination question_text =
     list_ex (\<lambda>word. sublist word (lower question_text))
       [''because'', ''although'', ''while'', ''if'', ''when'', ''unless'', ''since'']"

definition has_coordination :: "string \<Rightarrow> bool" where
  "has_coordination question_text =
     list_ex (\<lambda>word. sublist word (lower question_text))
       [''and'', ''but'', ''or'', ''however'', ''therefore'', ''thus'']"

definition has_conditionals :: "string \<Rightarrow> bool" where
  "has_conditionals question_text =
     list_ex (\<lambda>word. sublist word (lower question_text))
       [''would'', ''could'', ''might'', ''should'']"

definition structural_complexity :: "string \<Rightarrow> rat" where
  "structural_complexity question_text =
     (if has_subordination question_text then 4/10 else 1/10)
     + (if has_coordination question_text then 2/10 else 0)
     + (if has_conditionals question_text then 2/10 else 0)"

definition total_complexity :: "string \<Rightarrow> rat" where
  "total_complexity question_text =
     (let sentence_complexity = min (of_nat (word_count question_text) / 10) 1
      in (sentence_complexity + structural_complexity question_text) / 2)"

definition analyze_question_complexity :: "string \<Rightarrow> level \<Rightarrow> rat \<Rightarrow> rat" where
  "analyze_question_complexity question_text level threshold =
     (if threshold \<le> total_complexity question_text then 8/10
      else if total_complexity question_text < threshold - 2/10 then - (8/10)
      else 0)"

subsection \<open>The scoring loop of \<^verbatim>\<open>analyze_question_blooms_level\<close>\<close>

text \<open>
  \<^verbatim>\<open>if document_text:\<close> holds for a non-empty string only, neither for \<^verbatim>\<open>None\<close> nor
  for the empty string.
\<close>

definition question_clean_of :: "string \<Rightarrow> string" where
  "question_clean_of question_lower = strip (sub_spaces (sub_punct question_lower))"

definition keyword_score :: "level_profile \<Rightarrow> string \<Rightarrow> rat" where
  "keyword_score data question_clean =
     sum_list (map (\<lambda>keyword. if re_search (keyword_regex keyword) question_clean
                               then 3/2 * weight data else 0) (keywords' data))"

definition pattern_score :: "level_profile \<Rightarrow> string \<Rightarrow> rat" where
  "pattern_score data question_lower =
     sum_list (map (\<lambda>pattern. if re_search pattern question_lower
                               then 2 * weight data else 0) (question_patterns data))"

definition verb_score :: "level_profile \<Rightarrow> string \<Rightarrow> rat" where
  "verb_score data question_clean =
     (if list_ex (\<lambda>word. word \<in> set (verbs data)) (take 3 (split question_clean))
      then 1 * weight data else 0)"

definition doc_score :: "string option \<Rightarrow> string \<Rightarrow> level \<Rightarrow> rat" where
  "doc_score document_text question_text level =
     (case document_text of
        None \<Rightarrow> 0
      | Some text \<Rightarrow>
          if text = [] then 0
          else (let document_lower = lower text;
                    d = analyze_document_context question_text document_lower level
                in if level \<in> {Applying, Analyzing, Evaluating, Creating} then d * (3/2)
                   else d))"

definition level_score :: "string option \<Rightarrow> string \<Rightarrow> level \<Rightarrow> rat" where
  \<comment> \<open>one round of the loop: the value stored in \<^verbatim>\<open>level_scores[level]\<close>\<close>
  "level_score document_text question_text level =
     (let data = blooms_processes level;
          question_lower = strip (lower question_text);
          question_clean = question_clean_of question_lower;
          score = keyword_score data question_clean
                  + pattern_score data question_lower
                  + verb_score data question_clean
                  + doc_score document_text question_text level
                  + analyze_question_complexity question_text level (complexity_threshold data)
      in max score 0)"

subsection \<open>\<^verbatim>\<open>_handle_special_cases\<close>\<close>

definition what_did_regex :: regex where
  \<comment> \<open>\<^verbatim>\<open>^what (did|happened)\<close>\<close>
  "what_did_regex = seqs [Bol, Lit ''what '', alts [''did'', ''happened'']]"

definition handle_special_cases :: "string \<Rightarrow> score_board \<Rightarrow> score_board" where
  "handle_special_cases question_text level_scores =
     (let question_lower = lower question_text;
          s1 = (if re_search what_did_regex question_lower
                then fold (\<lambda>level s. s(level := max (s level - 3/2) 0))
                       [Understanding, Applying, Analyzing, Evaluating, Creating]
                       (level_scores(Remembering := level_scores Remembering + 5/2))
                else level_scores);
          s2 = (if prefix ''how '' question_lower then
                  (if sublist ''how to'' question_lower
                   then s1(Applying := s1 Applying + 3/2)
                   else if sublist ''how would'' question_lower \<or>
                           sublist ''how could'' question_lower
                   then (let t = s1(Applying := s1 Applying + 1)
                         in t(Creating := t Creating + 1))
                   else if sublist ''how does'' question_lower \<or>
                           sublist ''how did'' question_lower
                   then (let t = s1(Understanding := s1 Understanding + 1)
                         in t(Analyzing := t Analyzing + 1/2))
                   else s1)
                else s1);
          s3 = (if prefix ''why '' question_lower
                then (let t = s2(Understanding := s2 Understanding + 1)
                      in t(Analyzing := t Analyzing + 3/2))
                else s2)
      in s3)"

subsection \<open>\<^verbatim>\<open>_determine_level_with_confidence\<close>\<close>

text \<open>
  Python's \<^verbatim>\<open>max(d, key=d.get)\<close> walks the keys in iteration order and replaces the
  candidate only by a strictly greater one, so the first maximal key wins.
\<close>

fun max_by :: "('a \<Rightarrow> rat) \<Rightarrow> 'a \<Rightarrow> 'a list \<Rightarrow> 'a" where
  "max_by f best [] = best"
| "max_by f best (x # xs) = max_by f (if f best < f x then x else best) xs"

definition max_key :: "score_board \<Rightarrow> level" where
  "max_key s = max_by s Remembering [Understanding, Applying, Analyzing, Evaluating, Creating]"

definition sorted_desc :: "rat list \<Rightarrow> rat list" where
  \<comment> \<open>\<^verbatim>\<open>sorted(values, reverse=True)\<close>\<close>
  "sorted_desc vs = rev (sort vs)"

definition determine_level_with_confidence :: "score_board \<Rightarrow> level \<times> rat" where
  "determine_level_with_confidence level_scores =
     (if sum_list (score_values level_scores) = 0 then (Remembering, 1/2)
      else
        let max_score = Max (set (score_values level_scores));
            detected_level = max_key level_scores;
            total_score = sum_list (score_values level_scores);
            confidence = max_score / total_score;
            sorted_scores = sorted_desc (score_values level_scores);
            score_gap = sorted_scores ! 0 - sorted_scores ! 1;
            gap_ratio = score_gap / max 1 (sorted_scores ! 0)
        in (detected_level, min (confidence + gap_ratio * (3/10)) (95/100)))"

subsection \<open>\<^verbatim>\<open>_validate_classification\<close>\<close>

definition validate_classification :: "rat \<Rightarrow> string \<Rightarrow> level \<Rightarrow> string option \<Rightarrow> rat" where
  "validate_classification confidence question_text detected_level document_text =
     (let wc = word_count question_text;
          c1 = (if wc < 4 then confidence * (7/10) else confidence);
          c2 = (if 15 < wc then min (c1 * (11/10)) (95/100) else c1);
          c3 = (if CHR ''?'' \<in> set question_text then min (c2 * (105/100)) (95/100) else c2);
          c4 = (if detected_level \<noteq> Remembering \<and> 8 < wc
                then min (c3 * (11/10)) (95/100) else c3);
          c5 = (if (case document_text of None \<Rightarrow> False
                    | Some text \<Rightarrow> text \<noteq> [] \<and> 100 < length text)
                then min (c4 * (105/100)) (95/100) else c4)
      in max (1/10) (min c5 (95/100)))"

subsection \<open>Rounding and number formatting\<close>

definition round_half_even :: "rat \<Rightarrow> int" where
  "round_half_even y =
     (let f = \<lfloor>y\<rfloor>; d = y - of_int f
      in if d < 1/2 then f else if 1/2 < d then f + 1 else if even f then f else f + 1)"

definition round2 :: "rat \<Rightarrow> rat" where
  \<comment> \<open>\<^verbatim>\<open>round(x, 2)\<close>\<close>
  "round2 x = of_int (round_half_even (x * 100)) / 100"

definition digit_char :: "nat \<Rightarrow> char" where
  "digit_char d = char_of (48 + d)"

fun str_nat :: "nat \<Rightarrow> string" where
  "str_nat n = (if n < 10 then [digit_char n] else str_nat (n div 10) @ [digit_char (n mod 10)])"

definition format_1f :: "rat \<Rightarrow> string" where
  \<comment> \<open>the format \<^verbatim>\<open>:.1f\<close>\<close>
  "format_1f x =
     (let n = nat (round_half_even (\<bar>x\<bar> * 10))
      in (if x < 0 then ''-'' else []) @ str_nat (n div 10) @ ''.'' @ str_nat (n mod 10))"

subsection \<open>\<^verbatim>\<open>_generate_detailed_explanation\<close> and \<^verbatim>\<open>_get_classification_reasoning\<close>\<close>

text \<open>
  The check mark and the cross of the verdict are outside ASCII; they stand here as
  their three UTF-8 bytes.
\<close>

definition apostrophe :: string where
  "apostrophe = [CHR 0x27]"

definition check_mark :: string where
  "check_mark = [CHR 0xE2, CHR 0x9C, CHR 0x93]"

definition cross_mark :: string where
  "cross_mark = [CHR 0xE2, CHR 0x9C, CHR 0x97]"

definition words_regex :: "string list \<Rightarrow> regex" where
  \<comment> \<open>\<^verbatim>\<open>\b(w1|w2|...)\b\<close>\<close>
  "words_regex ws = Seq WordB (Seq (alts ws) WordB)"

fun reasoning_words :: "level \<Rightarrow> string list" where
  "reasoning_words Remembering =
     [''who'', ''what'', ''when'', ''where'', ''list'', ''name'', ''define'']"
| "reasoning_words Understanding =
     [''explain'', ''summarize'', ''in your own words'', ''main idea'']"
| "reasoning_words Applying = [''use'', ''apply'', ''solve'', ''demonstrate'', ''calculate'']"
| "reasoning_words Analyzing =
     [''difference'', ''analyze'', ''compare'', ''contrast'', ''relationship'', ''cause'',
      ''effect'']"
| "reasoning_words Evaluating =
     [''evaluate'', ''judge'', ''critique'', ''justify'', ''defend'', ''opinion'']"
| "reasoning_words Creating =
     [''create'', ''design'', ''develop'', ''propose'', ''invent'', ''what if'']"

fun reasoning_hit :: "level \<Rightarrow> string" where
  "reasoning_hit Remembering = ''Question asks for direct recall of factual information.''"
| "reasoning_hit Understanding =
     ''Question requires explaining ideas or concepts, not just recalling them.''"
| "reasoning_hit Applying =
     ''Question requires using knowledge or a procedure in a specific situation or problem.''"
| "reasoning_hit Analyzing =
     ''Question requires breaking down information into parts and examining relationships.''"
| "reasoning_hit Evaluating =
     ''Question requires making a judgment based on criteria and standards.''"
| "reasoning_hit Creating =
     ''Question requires synthesizing elements into a new, coherent whole or proposing original ideas.''"

fun reasoning_miss :: "level \<Rightarrow> string" where
  "reasoning_miss Remembering =
     ''Question structure and keywords indicate a request for retrieval of known information.''"
| "reasoning_miss Understanding =
     ''Question asks for interpretation or demonstration of comprehension.''"
| "reasoning_miss Applying =
     ''Question prompts the application of learned material in a new context.''"
| "reasoning_miss Analyzing =
     ''Question prompts deconstruction of concepts to find underlying structure or motives.''"
| "reasoning_miss Evaluating =
     ''Question prompts justification of a decision or critical assessment of a value.''"
| "reasoning_miss Creating =
     ''Question prompts the generation of new ideas, products, or ways of viewing things.''"

definition score_items :: "score_board \<Rightarrow> (level \<times> rat) list" where
  \<comment> \<open>\<^verbatim>\<open>scores.items()\<close>\<close>
  "score_items s = map (\<lambda>l. (l, s l)) all_levels"

definition sorted_items_desc :: "score_board \<Rightarrow> (level \<times> rat) list" where
  \<comment> \<open>\<^verbatim>\<open>sorted(scores.items(), key=lambda x: x[1], reverse=True)\<close>: a stable sort,
     equal scores keep their order\<close>
  "sorted_items_desc s = sort_key (\<lambda>(l, v). - v) (score_items s)"

definition get_classification_reasoning :: "string \<Rightarrow> level \<Rightarrow> score_board \<Rightarrow> string" where
  "get_classification_reasoning question detected_level scores =
     (let question_lower = lower question;
          reasoning = ''Reasoning: '' @
            (if re_search (words_regex (reasoning_words detected_level)) question_lower
             then reasoning_hit detected_level else reasoning_miss detected_level);
          sorted_scores = sorted_items_desc scores;
          first_score = snd (sorted_scores ! 0);
          second_score = snd (sorted_scores ! 1)
      in if first_score - second_score < 1
         then reasoning @ '' This was a close decision with '' @ apostrophe @
              level_name (fst (sorted_scores ! 1)) @ apostrophe @ ''.''
         else reasoning)"

fun join :: "string \<Rightarrow> string list \<Rightarrow> string" where
  "join sep [] = []"
| "join sep [x] = x"
| "join sep (x # xs) = x @ sep @ join sep xs"

definition generate_detailed_explanation ::
  "string \<Rightarrow> level \<Rightarrow> string \<Rightarrow> bool \<Rightarrow> score_board \<Rightarrow> string option \<Rightarrow> rat \<Rightarrow> string" where
  "generate_detailed_explanation question detected_level selected_level matches scores
       document_text confidence =
     (let base = (if matches
                  then check_mark @ '' CORRECT. The question is classified as '' @ apostrophe @
                       level_name detected_level @ apostrophe @ ''.''
                  else cross_mark @ '' INCORRECT. The question is classified as '' @ apostrophe @
                       level_name detected_level @ apostrophe @ '', not '' @ apostrophe @
                       selected_level @ apostrophe @ ''.'');
          conf_text = '' Confidence: '' @ format_1f (confidence * 100) @ ''%.'';
          score_text = '' Score breakdown: '' @
            join '', '' (map (\<lambda>(l, s). level_name l @ '':'' @ format_1f s) (score_items scores))
            @ ''.'';
          wc = word_count question;
          quality = (if 6 < wc \<and> CHR ''?'' \<in> set question
                     then ''Well-structured'' else ''Needs more specificity'');
          quality_text = '' Question quality: '' @ quality @ '' ('' @ str_nat wc @ '' words).'';
          doc_text = (if (case document_text of None \<Rightarrow> False | Some text \<Rightarrow> text \<noteq> [])
                      then '' Document context was utilized.''
                      else '' No document provided for context.'');
          reasoning = get_classification_reasoning question detected_level scores
      in base @ conf_text @ score_text @ quality_text @ doc_text @ '' '' @ reasoning)"

subsection \<open>\<^verbatim>\<open>analyze_question_blooms_level\<close>\<close>

record classification_result =
  matches_level :: bool
  confidence :: rat
  actual_level :: string
  explanation :: string
  scores :: "(string \<times> rat) list"

datatype py_error = AttributeError string

fun str_of_error :: "py_error \<Rightarrow> string" where
  "str_of_error (AttributeError msg) = msg"

definition final_scores :: "string option \<Rightarrow> string \<Rightarrow> score_board" where
  \<comment> \<open>\<^verbatim>\<open>level_scores\<close> after the loop and \<^verbatim>\<open>_handle_special_cases\<close>\<close>
  "final_scores document_text question_text =
     handle_special_cases question_text (level_score document_text question_text)"

text \<open>
  The body of the \<^verbatim>\<open>try\<close> block. With a string for the question nothing in it raises;
  with \<^verbatim>\<open>None\<close> the first use, \<^verbatim>\<open>question_text.lower()\<close>, raises AttributeError.
\<close>

definition try_block ::
  "string option \<Rightarrow> string option \<Rightarrow> string \<Rightarrow> py_error + classification_result" where
  "try_block document_text question_text selected_blooms_level =
     (case question_text of
        None \<Rightarrow> Inl (AttributeError
                 (apostrophe @ ''NoneType' object has no attribute 'lower'' @ apostrophe))
      | Some question \<Rightarrow>
          let level_scores = final_scores document_text question;
              (detected_level, confidence0) = determine_level_with_confidence level_scores;
              confidence = validate_classification confidence0 question detected_level
                             document_text;
              matches = (level_name detected_level = selected_blooms_level);
              explanation = generate_detailed_explanation question detected_level
                              selected_blooms_level matches level_scores document_text
                              confidence
          in Inr \<lparr> matches_level = matches,
                   confidence = round2 confidence,
                   actual_level = level_name detected_level,
                   explanation = explanation,
                   scores = map (\<lambda>(k, v). (level_name k, round2 v))
                              (score_items level_scores) \<rparr>)"

definition analyze_question_blooms_level ::
  "string option \<Rightarrow> string option \<Rightarrow> string \<Rightarrow> classification_result" where
  "analyze_question_blooms_level document_text question_text selected_blooms_level =
     (case try_block document_text question_text selected_blooms_level of
        Inr result \<Rightarrow> result
      | Inl e \<Rightarrow> \<lparr> matches_level = False,
                    confidence = 0,
                    actual_level = ''Error'',
                    explanation = ''Analysis failed: '' @ str_of_error e,
                    scores = [] \<rparr>)"

subsection \<open>The calibrator as the specification words it\<close>

text \<open>
  These three definitions follow the specification's wording of the decision step, not
  the code: the first level, in enumeration order, whose score is the maximum, and the
  second highest score, which is the highest score once one occurrence of the maximum
  is set aside (so a tie for the top gives a gap of zero).
\<close>

definition spec_argmax :: "score_board \<Rightarrow> level" where
  "spec_argmax s = hd (filter (\<lambda>l. s l = Max (set (score_values s))) all_levels)"

definition spec_second_highest :: "rat list \<Rightarrow> rat" where
  "spec_second_highest vs = Max (set (remove1 (Max (set vs)) vs))"

definition spec_calibrate :: "score_board \<Rightarrow> level \<times> rat" where
  "spec_calibrate s =
     (let vs = score_values s; total = sum_list vs; top = Max (set vs)
      in if total = 0 then (Remembering, 1/2)
         else (spec_argmax s,
               min (top / total + (top - spec_second_highest vs) / max 1 top * (3/10))
                   (95/100)))"

section \<open>Evaluation equations\<close>

text \<open>
  The character classes, stated on the eight bits of a character. They replace the
  arithmetic on character codes when a term is evaluated.
\<close>

lemma is_upper_code [code]:
  "is_upper (Char b0 b1 b2 b3 b4 b5 b6 b7) =
     (\<not> b7 \<and> b6 \<and> \<not> b5 \<and> (b0 \<or> b1 \<or> b2 \<or> b3 \<or> b4) \<and> \<not> (b4 \<and> b3 \<and> (b2 \<or> (b1 \<and> b0))))"
  by (cases b0; cases b1; cases b2; cases b3; cases b4; cases b5; cases b6; cases b7;
      simp add: is_upper_def)

lemma is_lower_code [code]:
  "is_lower (Char b0 b1 b2 b3 b4 b5 b6 b7) =
     (\<not> b7 \<and> b6 \<and> b5 \<and> (b0 \<or> b1 \<or> b2 \<or> b3 \<or> b4) \<and> \<not> (b4 \<and> b3 \<and> (b2 \<or> (b1 \<and> b0))))"
  by (cases b0; cases b1; cases b2; cases b3; cases b4; cases b5; cases b6; cases b7;
      simp add: is_lower_def)

lemma is_digit_code [code]:
  "is_digit (Char b0 b1 b2 b3 b4 b5 b6 b7) =
     (\<not> b7 \<and> \<not> b6 \<and> b5 \<and> b4 \<and> \<not> (b3 \<and> (b2 \<or> b1)))"
  by (cases b0; cases b1; cases b2; cases b3; cases b4; cases b5; cases b6; cases b7;
      simp add: is_digit_def)

lemma is_space_code [code]:
  "is_space (Char b0 b1 b2 b3 b4 b5 b6 b7) =
     (\<not> b7 \<and> \<not> b6 \<and>
      ((\<not> b5 \<and> \<not> b4 \<and> b3 \<and> (b0 \<or> b1 \<or> b2) \<and> \<not> (b2 \<and> b1)) \<or>
       (\<not> b5 \<and> b4 \<and> b3 \<and> b2) \<or>
       (b5 \<and> \<not> b4 \<and> \<not> b3 \<and> \<not> b2 \<and> \<not> b1 \<and> \<not> b0)))"
  by (cases b0; cases b1; cases b2; cases b3; cases b4; cases b5; cases b6; cases b7;
      simp add: is_space_def)

lemma lower_char_code [code]:
  "lower_char (Char b0 b1 b2 b3 b4 b5 b6 b7) =
     (if is_upper (Char b0 b1 b2 b3 b4 b5 b6 b7) then Char b0 b1 b2 b3 b4 True b6 b7
      else Char b0 b1 b2 b3 b4 b5 b6 b7)"
  by (cases b0; cases b1; cases b2; cases b3; cases b4; cases b5; cases b6; cases b7;
      simp add: lower_char_def is_upper_def char_of_eq_iff)

section \<open>The shape of the result\<close>

text \<open>
  With a string for the question the \<^verbatim>\<open>try\<close> block returns; the fields of its result are
  read off the pipeline. With \<^verbatim>\<open>None\<close> it raises and the handler builds the result.
\<close>

lemma level_name_not_Error: "level_name l \<noteq> ''Error''"
  by (cases l) simp_all

lemma classify_actual_level:
  "actual_level (analyze_question_blooms_level d (Some q) t) =
     level_name (fst (determine_level_with_confidence (final_scores d q)))"
  by (simp add: analyze_question_blooms_level_def try_block_def Let_def split: prod.split)

lemma classify_confidence:
  "confidence (analyze_question_blooms_level d (Some q) t) =
     round2 (validate_classification (snd (determine_level_with_confidence (final_scores d q)))
               q (fst (determine_level_with_confidence (final_scores d q))) d)"
  by (simp add: analyze_question_blooms_level_def try_block_def Let_def split: prod.split)

lemma classify_matches_level:
  "matches_level (analyze_question_blooms_level d (Some q) t) =
     (level_name (fst (determine_level_with_confidence (final_scores d q))) = t)"
  by (simp add: analyze_question_blooms_level_def try_block_def Let_def split: prod.split)

lemma classify_scores:
  "scores (analyze_question_blooms_level d (Some q) t) =
     map (\<lambda>l. (level_name l, round2 (final_scores d q l))) all_levels"
  by (simp add: analyze_question_blooms_level_def try_block_def Let_def score_items_def
           split: prod.split)

lemma classify_None:
  "analyze_question_blooms_level d None t =
     \<lparr> matches_level = False, confidence = 0, actual_level = ''Error'',
       explanation = ''Analysis failed: '' @ apostrophe @
                     ''NoneType' object has no attribute 'lower'' @ apostrophe,
       scores = [] \<rparr>"
  by (simp add: analyze_question_blooms_level_def try_block_def)


lemma round_half_even_between:
  assumes "of_int a \<le> y" "y \<le> of_int b"
  shows "a \<le> round_half_even y \<and> round_half_even y \<le> b"
proof -
  have fa: "a \<le> \<lfloor>y\<rfloor>" using assms(1) by (simp add: le_floor_iff)
  have fb: "\<lfloor>y\<rfloor> \<le> b" using assms(2) by (simp add: floor_le_iff)
  show ?thesis
  proof (cases "\<lfloor>y\<rfloor> = b")
    case True
    then have "y = of_int b" using assms(2) of_int_floor_le[of y] by simp
    then show ?thesis using fa by (simp add: round_half_even_def)
  next
    case False
    then have "\<lfloor>y\<rfloor> + 1 \<le> b" using fb by simp
    then show ?thesis using fa by (simp add: round_half_even_def Let_def)
  qed
qed

lemma round2_between:
  assumes "of_int a / 100 \<le> x" "x \<le> of_int b / 100"
  shows "of_int a / 100 \<le> round2 x \<and> round2 x \<le> of_int b / 100"
proof -
  have "of_int a \<le> x * 100" "x * 100 \<le> of_int b" using assms by (simp_all add: field_simps)
  from round_half_even_between[OF this]
  show ?thesis by (simp add: round2_def divide_le_cancel)
qed

lemma round2_nonneg: "0 \<le> x \<Longrightarrow> 0 \<le> round2 x"
proof -
  assume "0 \<le> x"
  then have "0 \<le> \<lfloor>x * 100\<rfloor>" by simp
  then have "0 \<le> round_half_even (x * 100)" by (simp add: round_half_even_def Let_def)
  then show ?thesis by (simp add: round2_def)
qed

lemma clamp_range:
  "1/10 \<le> max (1/10) (min (x::rat) (95/100)) \<and> max (1/10) (min x (95/100)) \<le> 95/100"
  by simp

lemma validate_classification_range:
  "1/10 \<le> validate_classification c q l d \<and> validate_classification c q l d \<le> 95/100"
  unfolding validate_classification_def Let_def by (rule clamp_range)

lemma level_score_nonneg: "0 \<le> level_score d q l"
  by (simp add: level_score_def Let_def)

lemma handle_special_cases_nonneg:
  assumes "\<And>l. 0 \<le> s l"
  shows "0 \<le> handle_special_cases q s l"
  using assms[of Remembering] assms[of Understanding] assms[of Applying]
        assms[of Analyzing] assms[of Evaluating] assms[of Creating] assms[of l]
  by (simp add: handle_special_cases_def Let_def)

lemma final_scores_nonneg: "0 \<le> final_scores d q l"
  unfolding final_scores_def by (rule handle_special_cases_nonneg) (rule level_score_nonneg)

section \<open>Regular expressions anchored at the start\<close>

lemma search_from_Bol_nonempty:
  "pre \<noteq> [] \<Longrightarrow> \<not> search_from (Seq Bol r) pre rest"
  by (induction rest arbitrary: pre) simp_all

lemma re_search_Bol:
  "re_search (Seq Bol r) s = (rx_match r ([], s) \<noteq> [])"
  by (cases s) (simp_all add: re_search_def search_from_Bol_nonempty)

lemma prefix_append_drop:
  "prefix (u @ v) s \<longleftrightarrow> prefix u s \<and> prefix v (drop (length u) s)"
  by (auto simp: prefix_def)

lemma what_did_search:
  "re_search what_did_regex x \<longleftrightarrow> prefix ''what did'' x \<or> prefix ''what happened'' x"
proof -
  have 1: "prefix ''what did'' x \<longleftrightarrow>
             prefix ''what '' x \<and> prefix ''did'' (drop (length ''what '') x)"
    using prefix_append_drop[of "''what ''" "''did''" x] by simp
  have 2: "prefix ''what happened'' x \<longleftrightarrow>
             prefix ''what '' x \<and> prefix ''happened'' (drop (length ''what '') x)"
    using prefix_append_drop[of "''what ''" "''happened''" x] by simp
  have "re_search what_did_regex x \<longleftrightarrow>
          prefix ''what '' x \<and> (prefix ''did'' (drop (length ''what '') x) \<or>
                                prefix ''happened'' (drop (length ''what '') x))"
    by (auto simp: what_did_regex_def re_search_Bol)
  then show ?thesis using 1 2 by blast
qed

lemma what_not_how_why:
  assumes "prefix ''what '' x"
  shows "\<not> prefix ''how '' x" "\<not> prefix ''why '' x"
  using assms by (auto simp: prefix_def)

section \<open>The decision step against its specification\<close>

lemma fold_max_ge: "(a::rat) \<le> fold max xs a"
  by (induction xs arbitrary: a) (auto intro: order_trans[OF max.cobounded2])

lemma max_by_first:
  "max_by f b xs = hd (filter (\<lambda>x. f x = Max (set (map f (b # xs)))) (b # xs))"
proof (induction xs arbitrary: b)
  case Nil
  show ?case by simp
next
  case (Cons x xs)
  define b' where "b' = (if f b < f x then x else b)"
  define M where "M = Max (set (map f (b # x # xs)))"
  have M': "Max (set (map f (b' # xs))) = M"
    unfolding M_def b'_def
    by (simp only: list.map Max.set_eq_fold fold_simps) (simp add: max_def)
  have ub: "\<And>y. y \<in> set (b # x # xs) \<Longrightarrow> f y \<le> M"
    unfolding M_def by (rule Max_ge) auto
  have step: "max_by f b (x # xs) = hd (filter (\<lambda>y. f y = M) (b' # xs))"
    using Cons.IH[of b'] M' by (simp add: b'_def)
  have goal: "max_by f b (x # xs) = hd (filter (\<lambda>y. f y = M) (b # x # xs))"
  proof (cases "f b < f x")
    case True
    then have "f b \<noteq> M" using ub[of x] by auto
    then show ?thesis using step True by (simp add: b'_def)
  next
    case False
    show ?thesis
    proof (cases "f b = M")
      case True
      then show ?thesis using step False by (simp add: b'_def)
    next
      case nb: False
      then have "f b < M" using ub[of b] by auto
      then have "f x \<noteq> M" using False by auto
      then show ?thesis using step False nb by (simp add: b'_def)
    qed
  qed
  then show ?case unfolding M_def .
qed

lemma max_key_spec: "max_key s = spec_argmax s"
  by (simp add: max_key_def spec_argmax_def score_values_def all_levels_def max_by_first)

lemma sorted_last_Max:
  "sorted xs \<Longrightarrow> xs \<noteq> [] \<Longrightarrow> last xs = Max (set (xs::rat list))"
  by (induction xs) (auto simp: max_def Max_insert intro: antisym)


lemma sorted_desc_top_two:
  assumes "2 \<le> length vs"
  shows "sorted_desc vs ! 0 = Max (set vs)" and "sorted_desc vs ! 1 = spec_second_highest vs"
proof -
  define ys where "ys = sort vs"
  define m where "m = Max (set vs)"
  have len: "length ys = length vs" and srt: "sorted ys"
    by (simp_all add: ys_def)
  have ne: "ys \<noteq> []" using assms len by (cases ys) auto
  have last_m: "last ys = m"
    using sorted_last_Max[OF srt ne] by (simp add: ys_def m_def)
  have "rev ys ! 0 = ys ! (length ys - 1)" using ne by (simp add: rev_nth)
  also have "\<dots> = last ys" using ne by (simp add: last_conv_nth)
  finally show "sorted_desc vs ! 0 = Max (set vs)"
    using last_m by (simp add: sorted_desc_def ys_def m_def)
  have split: "ys = butlast ys @ [m]" using ne last_m by (metis append_butlast_last_id)
  have "mset ys = mset (butlast ys) + {#m#}" by (subst split) simp
  then have "mset (butlast ys) = mset vs - {#m#}" by (simp add: ys_def)
  then have "mset (butlast ys) = mset (remove1 m vs)" by simp
  then have bl: "sort (remove1 m vs) = butlast ys"
    using sorted_butlast[OF srt] by (rule properties_for_sort)
  have bne: "butlast ys \<noteq> []" using assms len by (cases ys rule: rev_cases) auto
  have "spec_second_highest vs = Max (set (sort (remove1 m vs)))"
    by (simp add: spec_second_highest_def m_def del: set_remove1_eq)
  also have "\<dots> = last (butlast ys)"
    using sorted_last_Max[OF sorted_butlast[OF srt] bne] bl by simp
  also have "\<dots> = ys ! (length ys - 2)"
    using bne assms len by (simp add: last_conv_nth nth_butlast numeral_2_eq_2)
  also have "\<dots> = rev ys ! 1" using assms len by (simp add: rev_nth numeral_2_eq_2)
  finally show "sorted_desc vs ! 1 = spec_second_highest vs"
    by (simp add: sorted_desc_def ys_def)
qed

section \<open>The document and the scores\<close>

lemma classify_score_of:
  "map_of (scores (analyze_question_blooms_level d (Some q) t)) (level_name l) =
     Some (round2 (final_scores d q l))"
  by (cases l) (simp_all add: classify_scores all_levels_def)

lemma handle_special_cases_pointwise:
  "s l = s' l \<Longrightarrow> handle_special_cases q s l = handle_special_cases q s' l"
  by (cases l) (simp_all add: handle_special_cases_def Let_def)

lemma analyze_document_context_not_Creating:
  "l \<noteq> Creating \<Longrightarrow>
   analyze_document_context q d l =
     (if list_ex (\<lambda>pattern. re_search pattern (lower q)) doc_references
      then (if l \<in> {Analyzing, Evaluating} then 5/2 else 1) else 0)"
  by (simp add: analyze_document_context_def Let_def)

lemma doc_score_not_Creating:
  "d \<noteq> [] \<Longrightarrow> l \<noteq> Creating \<Longrightarrow>
   doc_score (Some d) q l =
     (let c = (if list_ex (\<lambda>pattern. re_search pattern (lower q)) doc_references
               then (if l \<in> {Analyzing, Evaluating} then 5/2 else 1) else 0)
      in if l \<in> {Applying, Analyzing, Evaluating, Creating} then c * (3/2) else c)"
  by (simp add: doc_score_def analyze_document_context_not_Creating Let_def)

lemma final_scores_document_independent:
  assumes "d1 \<noteq> []" "d2 \<noteq> []" "l \<noteq> Creating"
  shows "final_scores (Some d1) q l = final_scores (Some d2) q l"
proof -
  have "doc_score (Some d1) q l = doc_score (Some d2) q l"
    by (simp only: doc_score_not_Creating[OF assms(1,3)] doc_score_not_Creating[OF assms(2,3)])
  then have "level_score (Some d1) q l = level_score (Some d2) q l"
    by (simp add: level_score_def Let_def)
  then show ?thesis unfolding final_scores_def by (rule handle_special_cases_pointwise)
qed

section \<open>The canonical exemplars, evaluated\<close>

lemma round2_19_20: "round2 (19/20) = 19/20"
  by code_simp

lemma exemplar1_scores:
  "final_scores None ''What is the capital of France?'' =
     (\<lambda>l. case l of Remembering \<Rightarrow> 53/10 | Understanding \<Rightarrow> 0 | Applying \<Rightarrow> 0
        | Analyzing \<Rightarrow> 0 | Evaluating \<Rightarrow> 0 | Creating \<Rightarrow> 0)"
proof (rule ext)
  fix l
  show "final_scores None ''What is the capital of France?'' l =
     (case l of Remembering \<Rightarrow> 53/10 | Understanding \<Rightarrow> 0 | Applying \<Rightarrow> 0
        | Analyzing \<Rightarrow> 0 | Evaluating \<Rightarrow> 0 | Creating \<Rightarrow> 0)"
    by (cases l; hypsubst; code_simp)
qed

lemma exemplar1_determine:
  "determine_level_with_confidence
     (\<lambda>l. case l of Remembering \<Rightarrow> 53/10 | Understanding \<Rightarrow> 0 | Applying \<Rightarrow> 0
        | Analyzing \<Rightarrow> 0 | Evaluating \<Rightarrow> 0 | Creating \<Rightarrow> 0) = (Remembering, 19/20)"
  by code_simp

lemma exemplar1_validate:
  "validate_classification (19/20) ''What is the capital of France?'' Remembering None = 19/20"
  by code_simp

lemma exemplar1_result:
  "actual_level (analyze_question_blooms_level None (Some ''What is the capital of France?'') ''Remembering'') = ''Remembering'' \<and>
   confidence (analyze_question_blooms_level None (Some ''What is the capital of France?'') ''Remembering'') = 19/20"
  by (simp add: classify_actual_level classify_confidence exemplar1_scores
        exemplar1_determine exemplar1_validate round2_19_20)

lemma exemplar2_scores:
  "final_scores None ''Explain why photosynthesis is important.'' =
     (\<lambda>l. case l of Remembering \<Rightarrow> 4/5 | Understanding \<Rightarrow> 31/5 | Applying \<Rightarrow> 0
        | Analyzing \<Rightarrow> 0 | Evaluating \<Rightarrow> 0 | Creating \<Rightarrow> 0)"
proof (rule ext)
  fix l
  show "final_scores None ''Explain why photosynthesis is important.'' l =
     (case l of Remembering \<Rightarrow> 4/5 | Understanding \<Rightarrow> 31/5 | Applying \<Rightarrow> 0
        | Analyzing \<Rightarrow> 0 | Evaluating \<Rightarrow> 0 | Creating \<Rightarrow> 0)"
    by (cases l; hypsubst; code_simp)
qed

lemma exemplar2_determine:
  "determine_level_with_confidence
     (\<lambda>l. case l of Remembering \<Rightarrow> 4/5 | Understanding \<Rightarrow> 31/5 | Applying \<Rightarrow> 0
        | Analyzing \<Rightarrow> 0 | Evaluating \<Rightarrow> 0 | Creating \<Rightarrow> 0) = (Understanding, 19/20)"
  by code_simp

lemma exemplar2_validate:
  "validate_classification (19/20) ''Explain why photosynthesis is important.'' Understanding None = 19/20"
  by code_simp

lemma exemplar2_result:
  "actual_level (analyze_question_blooms_level None (Some ''Explain why photosynthesis is important.'') ''Understanding'') = ''Understanding'' \<and>
   confidence (analyze_question_blooms_level None (Some ''Explain why photosynthesis is important.'') ''Understanding'') = 19/20"
  by (simp add: classify_actual_level classify_confidence exemplar2_scores
        exemplar2_determine exemplar2_validate round2_19_20)

lemma exemplar3_scores:
  "final_scores None ''Calculate the area of a circle with radius 5.'' =
     (\<lambda>l. case l of Remembering \<Rightarrow> 4/5 | Understanding \<Rightarrow> 4/5 | Applying \<Rightarrow> 133/20
        | Analyzing \<Rightarrow> 0 | Evaluating \<Rightarrow> 0 | Creating \<Rightarrow> 0)"
proof (rule ext)
  fix l
  show "final_scores None ''Calculate the area of a circle with radius 5.'' l =
     (case l of Remembering \<Rightarrow> 4/5 | Understanding \<Rightarrow> 4/5 | Applying \<Rightarrow> 133/20
        | Analyzing \<Rightarrow> 0 | Evaluating \<Rightarrow> 0 | Creating \<Rightarrow> 0)"
    by (cases l; hypsubst; code_simp)
qed

lemma exemplar3_determine:
  "determine_level_with_confidence
     (\<lambda>l. case l of Remembering \<Rightarrow> 4/5 | Understanding \<Rightarrow> 4/5 | Applying \<Rightarrow> 133/20
        | Analyzing \<Rightarrow> 0 | Evaluating \<Rightarrow> 0 | Creating \<Rightarrow> 0) = (Applying, 19/20)"
  by code_simp

lemma exemplar3_validate:
  "validate_classification (19/20) ''Calculate the area of a circle with radius 5.'' Applying None = 19/20"
  by code_simp

lemma exemplar3_result:
  "actual_level (analyze_question_blooms_level None (Some ''Calculate the area of a circle with radius 5.'') ''Applying'') = ''Applying'' \<and>
   confidence (analyze_question_blooms_level None (Some ''Calculate the area of a circle with radius 5.'') ''Applying'') = 19/20"
  by (simp add: classify_actual_level classify_confidence exemplar3_scores
        exemplar3_determine exemplar3_validate round2_19_20)

lemma exemplar4_scores:
  "final_scores None ''Compare and contrast mitosis and meiosis.'' =
     (\<lambda>l. case l of Remembering \<Rightarrow> 4/5 | Understanding \<Rightarrow> 4/5 | Applying \<Rightarrow> 0
        | Analyzing \<Rightarrow> 38/5 | Evaluating \<Rightarrow> 0 | Creating \<Rightarrow> 0)"
proof (rule ext)
  fix l
  show "final_scores None ''Compare and contrast mitosis and meiosis.'' l =
     (case l of Remembering \<Rightarrow> 4/5 | Understanding \<Rightarrow> 4/5 | Applying \<Rightarrow> 0
        | Analyzing \<Rightarrow> 38/5 | Evaluating \<Rightarrow> 0 | Creating \<Rightarrow> 0)"
    by (cases l; hypsubst; code_simp)
qed

lemma exemplar4_determine:
  "determine_level_with_confidence
     (\<lambda>l. case l of Remembering \<Rightarrow> 4/5 | Understanding \<Rightarrow> 4/5 | Applying \<Rightarrow> 0
        | Analyzing \<Rightarrow> 38/5 | Evaluating \<Rightarrow> 0 | Creating \<Rightarrow> 0) = (Analyzing, 19/20)"
  by code_simp

lemma exemplar4_validate:
  "validate_classification (19/20) ''Compare and contrast mitosis and meiosis.'' Analyzing None = 19/20"
  by code_simp

lemma exemplar4_result:
  "actual_level (analyze_question_blooms_level None (Some ''Compare and contrast mitosis and meiosis.'') ''Analyzing'') = ''Analyzing'' \<and>
   confidence (analyze_question_blooms_level None (Some ''Compare and contrast mitosis and meiosis.'') ''Analyzing'') = 19/20"
  by (simp add: classify_actual_level classify_confidence exemplar4_scores
        exemplar4_determine exemplar4_validate round2_19_20)

lemma exemplar5_scores:
  "final_scores None ''Do you agree that the policy was effective? Justify your answer.'' =
     (\<lambda>l. case l of Remembering \<Rightarrow> 4/5 | Understanding \<Rightarrow> 4/5 | Applying \<Rightarrow> 4/5
        | Analyzing \<Rightarrow> 4/5 | Evaluating \<Rightarrow> 21/2 | Creating \<Rightarrow> 0)"
proof (rule ext)
  fix l
  show "final_scores None ''Do you agree that the policy was effective? Justify your answer.'' l =
     (case l of Remembering \<Rightarrow> 4/5 | Understanding \<Rightarrow> 4/5 | Applying \<Rightarrow> 4/5
        | Analyzing \<Rightarrow> 4/5 | Evaluating \<Rightarrow> 21/2 | Creating \<Rightarrow> 0)"
    by (cases l; hypsubst; code_simp)
qed

lemma exemplar5_determine:
  "determine_level_with_confidence
     (\<lambda>l. case l of Remembering \<Rightarrow> 4/5 | Understanding \<Rightarrow> 4/5 | Applying \<Rightarrow> 4/5
        | Analyzing \<Rightarrow> 4/5 | Evaluating \<Rightarrow> 21/2 | Creating \<Rightarrow> 0) = (Evaluating, 19/20)"
  by code_simp

lemma exemplar5_validate:
  "validate_classification (19/20) ''Do you agree that the policy was effective? Justify your answer.'' Evaluating None = 19/20"
  by code_simp

lemma exemplar5_result:
  "actual_level (analyze_question_blooms_level None (Some ''Do you agree that the policy was effective? Justify your answer.'') ''Evaluating'') = ''Evaluating'' \<and>
   confidence (analyze_question_blooms_level None (Some ''Do you agree that the policy was effective? Justify your answer.'') ''Evaluating'') = 19/20"
  by (simp add: classify_actual_level classify_confidence exemplar5_scores
        exemplar5_determine exemplar5_validate round2_19_20)

lemma exemplar6_scores:
  "final_scores None ''Design a new method to reduce plastic waste.'' =
     (\<lambda>l. case l of Remembering \<Rightarrow> 4/5 | Understanding \<Rightarrow> 4/5 | Applying \<Rightarrow> 0
        | Analyzing \<Rightarrow> 0 | Evaluating \<Rightarrow> 0 | Creating \<Rightarrow> 32/5)"
proof (rule ext)
  fix l
  show "final_scores None ''Design a new method to reduce plastic waste.'' l =
     (case l of Remembering \<Rightarrow> 4/5 | Understanding \<Rightarrow> 4/5 | Applying \<Rightarrow> 0
        | Analyzing \<Rightarrow> 0 | Evaluating \<Rightarrow> 0 | Creating \<Rightarrow> 32/5)"
    by (cases l; hypsubst; code_simp)
qed

lemma exemplar6_determine:
  "determine_level_with_confidence
     (\<lambda>l. case l of Remembering \<Rightarrow> 4/5 | Understanding \<Rightarrow> 4/5 | Applying \<Rightarrow> 0
        | Analyzing \<Rightarrow> 0 | Evaluating \<Rightarrow> 0 | Creating \<Rightarrow> 32/5) = (Creating, 19/20)"
  by code_simp

lemma exemplar6_validate:
  "validate_classification (19/20) ''Design a new method to reduce plastic waste.'' Creating None = 19/20"
  by code_simp

lemma exemplar6_result:
  "actual_level (analyze_question_blooms_level None (Some ''Design a new method to reduce plastic waste.'') ''Creating'') = ''Creating'' \<and>
   confidence (analyze_question_blooms_level None (Some ''Design a new method to reduce plastic waste.'') ''Creating'') = 19/20"
  by (simp add: classify_actual_level classify_confidence exemplar6_scores
        exemplar6_determine exemplar6_validate round2_19_20)

section \<open>Properties of the classifier\<close>

text \<open>
  C5. On every path without failure (the question is a string) the returned confidence
  lies in the closed interval from 0.1 to 0.95, and the level is not the literal
  "Error"; on the failure path the level is "Error" and the confidence is exactly 0.
\<close>

theorem confidence_range:
  "1/10 \<le> confidence (analyze_question_blooms_level d (Some q) t) \<and>
   confidence (analyze_question_blooms_level d (Some q) t) \<le> 95/100 \<and>
   actual_level (analyze_question_blooms_level d (Some q) t) \<noteq> ''Error'' \<and>
   actual_level (analyze_question_blooms_level d None t) = ''Error'' \<and>
   confidence (analyze_question_blooms_level d None t) = 0"
proof -
  let ?v = "validate_classification (snd (determine_level_with_confidence (final_scores d q)))
               q (fst (determine_level_with_confidence (final_scores d q))) d"
  have "of_int 10 / 100 \<le> ?v" "?v \<le> of_int 95 / 100"
    using validate_classification_range[of _ q _ d] by simp_all
  from round2_between[OF this]
  have "1/10 \<le> round2 ?v \<and> round2 ?v \<le> 95/100" by simp
  then show ?thesis
    by (simp add: classify_confidence classify_actual_level level_name_not_Error classify_None)
qed

text \<open>
  C9. Without failure \<open>matches_level\<close> holds if and only if the returned level is the
  target level handed in; on the failure path \<open>matches_level\<close> is false.
\<close>

theorem matches_level_iff:
  "(matches_level (analyze_question_blooms_level d (Some q) t) \<longleftrightarrow>
      actual_level (analyze_question_blooms_level d (Some q) t) = t) \<and>
   actual_level (analyze_question_blooms_level d (Some q) t) \<noteq> ''Error'' \<and>
   actual_level (analyze_question_blooms_level d None t) = ''Error'' \<and>
   \<not> matches_level (analyze_question_blooms_level d None t)"
  by (simp add: classify_matches_level classify_actual_level level_name_not_Error classify_None)

text \<open>
  C7, as stated, fails on the failure path: there the scores map is empty, it does not
  have six entries.
\<close>

theorem scores_failure_counterexample:
  "length (scores (analyze_question_blooms_level None None ''Remembering'')) \<noteq> 6"
  by (simp add: classify_None)

text \<open>
  C7, amended. Without failure the scores map has exactly the six level names as keys, in
  enumeration order, and every value is at least 0, as is every entry of the score board
  after the special-case rules (so also after the subtraction of rule 1). On the failure
  path the scores map is empty.
\<close>

theorem scores_six_nonneg:
  "map fst (scores (analyze_question_blooms_level d (Some q) t)) =
     [''Remembering'', ''Understanding'', ''Applying'', ''Analyzing'', ''Evaluating'', ''Creating''] \<and>
   list_all (\<lambda>(k, v). 0 \<le> v) (scores (analyze_question_blooms_level d (Some q) t)) \<and>
   (\<forall>l. 0 \<le> handle_special_cases q (level_score d q) l) \<and>
   scores (analyze_question_blooms_level d None t) = []"
  using final_scores_nonneg[of d q]
  by (simp add: classify_scores all_levels_def round2_nonneg classify_None final_scores_def)

text \<open>
  C1. Each of the six canonical exemplar questions, classified without a document and
  with its expected level as the target, comes back with that level and a confidence of
  at least 0.5 (the confidence is 0.95 in all six cases).
\<close>

theorem canonical_exemplars:
  "actual_level (analyze_question_blooms_level None (Some ''What is the capital of France?'') ''Remembering'') = ''Remembering'' \<and>
   1/2 \<le> confidence (analyze_question_blooms_level None (Some ''What is the capital of France?'') ''Remembering'') \<and>
   actual_level (analyze_question_blooms_level None (Some ''Explain why photosynthesis is important.'') ''Understanding'') = ''Understanding'' \<and>
   1/2 \<le> confidence (analyze_question_blooms_level None (Some ''Explain why photosynthesis is important.'') ''Understanding'') \<and>
   actual_level (analyze_question_blooms_level None (Some ''Calculate the area of a circle with radius 5.'') ''Applying'') = ''Applying'' \<and>
   1/2 \<le> confidence (analyze_question_blooms_level None (Some ''Calculate the area of a circle with radius 5.'') ''Applying'') \<and>
   actual_level (analyze_question_blooms_level None (Some ''Compare and contrast mitosis and meiosis.'') ''Analyzing'') = ''Analyzing'' \<and>
   1/2 \<le> confidence (analyze_question_blooms_level None (Some ''Compare and contrast mitosis and meiosis.'') ''Analyzing'') \<and>
   actual_level (analyze_question_blooms_level None (Some ''Do you agree that the policy was effective? Justify your answer.'') ''Evaluating'') = ''Evaluating'' \<and>
   1/2 \<le> confidence (analyze_question_blooms_level None (Some ''Do you agree that the policy was effective? Justify your answer.'') ''Evaluating'') \<and>
   actual_level (analyze_question_blooms_level None (Some ''Design a new method to reduce plastic waste.'') ''Creating'') = ''Creating'' \<and>
   1/2 \<le> confidence (analyze_question_blooms_level None (Some ''Design a new method to reduce plastic waste.'') ''Creating'')"
  by (simp add: exemplar1_result exemplar2_result exemplar3_result exemplar4_result exemplar5_result exemplar6_result)

lemma citation_example_scores:
  "final_scores (Some ''According to the text, cells divide by mitosis.'')
     ''Evaluate and compare the two methods.'' Analyzing = 27/10"
  "final_scores (Some ''Cells divide by mitosis.'')
     ''Evaluate and compare the two methods.'' Analyzing = 27/10"
  "final_scores (Some ''According to the text, cells divide by mitosis.'')
     ''Evaluate and compare the two methods.'' Evaluating = 59/20"
  "final_scores (Some ''Cells divide by mitosis.'')
     ''Evaluate and compare the two methods.'' Evaluating = 59/20"
  by code_simp+

lemma round2_examples: "round2 (27/10) = 27/10" "round2 (59/20) = 59/20"
  by code_simp+

text \<open>
  C2, as stated, fails: for the question "Evaluate and compare the two methods." a
  document that opens with "According to the text," and the same document without
  these words give the same score, 2.7 for Analyzing and 2.95 for Evaluating; the score
  with the citation phrase is not strictly greater.
\<close>

theorem document_citation_counterexample:
  "map_of (scores (analyze_question_blooms_level
             (Some ''According to the text, cells divide by mitosis.'')
             (Some ''Evaluate and compare the two methods.'') ''Analyzing'')) ''Analyzing''
     = Some (27/10) \<and>
   map_of (scores (analyze_question_blooms_level
             (Some ''Cells divide by mitosis.'')
             (Some ''Evaluate and compare the two methods.'') ''Analyzing'')) ''Analyzing''
     = Some (27/10) \<and>
   map_of (scores (analyze_question_blooms_level
             (Some ''According to the text, cells divide by mitosis.'')
             (Some ''Evaluate and compare the two methods.'') ''Evaluating'')) ''Evaluating''
     = Some (59/20) \<and>
   map_of (scores (analyze_question_blooms_level
             (Some ''Cells divide by mitosis.'')
             (Some ''Evaluate and compare the two methods.'') ''Evaluating'')) ''Evaluating''
     = Some (59/20) \<and>
   \<not> (the (map_of (scores (analyze_question_blooms_level
             (Some ''Cells divide by mitosis.'')
             (Some ''Evaluate and compare the two methods.'') ''Analyzing'')) ''Analyzing'')
        < the (map_of (scores (analyze_question_blooms_level
             (Some ''According to the text, cells divide by mitosis.'')
             (Some ''Evaluate and compare the two methods.'') ''Analyzing'')) ''Analyzing''))"
  using classify_score_of[of _ _ _ Analyzing] classify_score_of[of _ _ _ Evaluating]
  by (simp add: citation_example_scores round2_examples)

text \<open>
  C2, amended. For every question and each of the levels Analyzing and Evaluating, two
  non-empty documents give the same score for that level, whether or not they contain a
  citation phrase. The citation phrases are searched in the question, not in the
  document: with any non-empty document the document-context contribution to such a
  level is 2.5 times 1.5 when the question contains a citation phrase and 0 otherwise.
\<close>

theorem document_content_irrelevant:
  assumes "d1 \<noteq> []" "d2 \<noteq> []" "l \<in> {Analyzing, Evaluating}"
  shows "map_of (scores (analyze_question_blooms_level (Some d1) (Some q) t)) (level_name l) =
         map_of (scores (analyze_question_blooms_level (Some d2) (Some q) t)) (level_name l)
       \<and> doc_score (Some d1) q l =
           (if list_ex (\<lambda>pattern. re_search pattern (lower q)) doc_references
            then 5/2 * (3/2) else 0)"
proof -
  have nc: "l \<noteq> Creating" using assms(3) by auto
  have "final_scores (Some d1) q l = final_scores (Some d2) q l"
    using assms(1,2) nc by (rule final_scores_document_independent)
  moreover have "doc_score (Some d1) q l =
           (if list_ex (\<lambda>pattern. re_search pattern (lower q)) doc_references
            then 5/2 * (3/2) else 0)"
    using assms(3) by (auto simp: doc_score_not_Creating[OF assms(1) nc] Let_def)
  ultimately show ?thesis by (simp add: classify_score_of)
qed

text \<open>The amended statement at the two documents of the counterexample.\<close>

theorem document_content_irrelevant_witness:
  "''According to the text, cells divide by mitosis.'' \<noteq> [] \<and>
   ''Cells divide by mitosis.'' \<noteq> [] \<and>
   Analyzing \<in> {Analyzing, Evaluating} \<and>
   map_of (scores (analyze_question_blooms_level
             (Some ''According to the text, cells divide by mitosis.'')
             (Some ''Evaluate and compare the two methods.'') ''Analyzing'')) ''Analyzing'' =
   map_of (scores (analyze_question_blooms_level
             (Some ''Cells divide by mitosis.'')
             (Some ''Evaluate and compare the two methods.'') ''Analyzing'')) ''Analyzing''"
proof -
  have h1: "''According to the text, cells divide by mitosis.'' \<noteq> []" by simp
  have h2: "''Cells divide by mitosis.'' \<noteq> []" by simp
  have h3: "Analyzing \<in> {Analyzing, Evaluating}" by simp
  have "level_name Analyzing = ''Analyzing''" by simp
  with document_content_irrelevant[OF h1 h2 h3,
         of "''Evaluate and compare the two methods.''" "''Analyzing''"]
  show ?thesis using h1 h2 h3 by metis
qed

lemma empty_question_scores:
  "final_scores None [] =
     (\<lambda>l. case l of Remembering \<Rightarrow> 0 | Understanding \<Rightarrow> 0 | Applying \<Rightarrow> 0
        | Analyzing \<Rightarrow> 0 | Evaluating \<Rightarrow> 0 | Creating \<Rightarrow> 0)"
proof (rule ext)
  fix l
  show "final_scores None [] l =
     (case l of Remembering \<Rightarrow> 0 | Understanding \<Rightarrow> 0 | Applying \<Rightarrow> 0
        | Analyzing \<Rightarrow> 0 | Evaluating \<Rightarrow> 0 | Creating \<Rightarrow> 0)"
    by (cases l; hypsubst; code_simp)
qed

lemma empty_question_determine:
  "determine_level_with_confidence
     (\<lambda>l. case l of Remembering \<Rightarrow> 0 | Understanding \<Rightarrow> 0 | Applying \<Rightarrow> 0
        | Analyzing \<Rightarrow> 0 | Evaluating \<Rightarrow> 0 | Creating \<Rightarrow> 0) = (Remembering, 1/2)"
  by code_simp

lemma empty_question_validate:
  "validate_classification (1/2) [] Remembering None = 7/20"
  by code_simp

lemma round2_7_20: "round2 (7/20) = 7/20"
  by code_simp

lemma round2_0: "round2 0 = 0"
  by code_simp

text \<open>
  C3, as stated, fails: for the empty question without a document the confidence
  handed back to the caller is not 0.5.
\<close>

theorem empty_question_counterexample:
  "confidence (analyze_question_blooms_level None (Some []) ''Remembering'') \<noteq> 1/2"
  by (simp add: classify_confidence empty_question_scores empty_question_determine
        empty_question_validate round2_7_20)

text \<open>
  C3, amended. For the empty question without a document, whatever the target level,
  the returned level is Remembering, the six scores are all 0 and the returned
  confidence is 0.35: the calibrator gives 0.5 on the all-zero board, and the validator
  multiplies it by 0.7 because the question has fewer than four words.
\<close>

theorem empty_question_result:
  "actual_level (analyze_question_blooms_level None (Some []) t) = ''Remembering'' \<and>
   confidence (analyze_question_blooms_level None (Some []) t) = 7/20 \<and>
   scores (analyze_question_blooms_level None (Some []) t) =
     [(''Remembering'', 0), (''Understanding'', 0), (''Applying'', 0),
      (''Analyzing'', 0), (''Evaluating'', 0), (''Creating'', 0)] \<and>
   determine_level_with_confidence (final_scores None []) = (Remembering, 1/2) \<and>
   validate_classification (1/2) [] Remembering None = 1/2 * (7/10)"
  by (simp add: classify_actual_level classify_confidence classify_scores all_levels_def
        empty_question_scores empty_question_determine empty_question_validate
        round2_7_20 round2_0)

text \<open>
  C4. The decision step computes what the specification says: on a board whose six
  scores sum to 0 it returns Remembering with confidence 0.5; otherwise it returns the
  first level, in enumeration order, among those with the maximal score, with
  confidence min(top / total + (top - second highest) / max(1, top) * 0.3, 0.95).
\<close>

theorem determine_level_refines_spec:
  "determine_level_with_confidence s = spec_calibrate s"
proof -
  have len: "2 \<le> length (score_values s)" by (simp add: score_values_def all_levels_def)
  show ?thesis
    unfolding determine_level_with_confidence_def spec_calibrate_def Let_def
    by (simp only: sorted_desc_top_two[OF len] max_key_spec)
qed

text \<open>
  The calibrator on a board where Applying and Analyzing tie for the top at 2 (total
  6.5): the earlier level wins, the gap is 0 and the confidence is 2 / 6.5.
\<close>

theorem determine_level_refines_spec_witness:
  "determine_level_with_confidence
     (\<lambda>l. case l of Remembering \<Rightarrow> 1 | Understanding \<Rightarrow> 1 | Applying \<Rightarrow> 2
        | Analyzing \<Rightarrow> 2 | Evaluating \<Rightarrow> 1/2 | Creating \<Rightarrow> 0) = (Applying, 4/13)"
proof -
  have "spec_calibrate
     (\<lambda>l. case l of Remembering \<Rightarrow> 1 | Understanding \<Rightarrow> 1 | Applying \<Rightarrow> 2
        | Analyzing \<Rightarrow> 2 | Evaluating \<Rightarrow> 1/2 | Creating \<Rightarrow> 0) = (Applying, 4/13)"
    by code_simp
  then show ?thesis by (simp only: determine_level_refines_spec)
qed

text \<open>
  C8. For every question whose lowercased text begins with "what did" or
  "what happened", and every score board, the special-case rules add exactly 2.5 to the
  Remembering score and replace every other score \<open>s\<close> by \<open>max (s - 1.5) 0\<close>; no other rule
  fires on such a question.
\<close>

theorem what_did_special_case:
  assumes "prefix ''what did'' (lower q) \<or> prefix ''what happened'' (lower q)"
  shows "handle_special_cases q s =
           (\<lambda>l. if l = Remembering then s l + 5/2 else max (s l - 3/2) 0)"
proof -
  have w: "prefix ''what '' (lower q)" using assms by (auto simp: prefix_def)
  have r: "re_search what_did_regex (lower q)" using assms by (simp add: what_did_search)
  show ?thesis
  proof (rule ext)
    fix l
    show "handle_special_cases q s l = (if l = Remembering then s l + 5/2 else max (s l - 3/2) 0)"
      using what_not_how_why[OF w] r
      by (cases l) (simp_all add: handle_special_cases_def Let_def)
  qed
qed

text \<open>
  The rule at the question "What did he do" on a board with Understanding at 1 and every
  other level at 4: Remembering rises to 6.5, Understanding is floored at 0, the others
  drop to 2.5.
\<close>

theorem what_did_special_case_witness:
  "prefix ''what did'' (lower ''What did he do'') \<and>
   map (handle_special_cases ''What did he do'' (\<lambda>l. if l = Understanding then 1 else 4))
       all_levels = [13/2, 0, 5/2, 5/2, 5/2, 5/2]"
proof -
  have h: "prefix ''what did'' (lower ''What did he do'')" by code_simp
  have "handle_special_cases ''What did he do'' (\<lambda>l. if l = Understanding then 1 else 4) =
          (\<lambda>l. if l = Remembering then (if l = Understanding then 1 else 4) + 5/2
                else max ((if l = Understanding then 1 else 4) - 3/2) 0)"
    by (rule what_did_special_case) (rule disjI1, rule h)
  then show ?thesis using h by (simp add: all_levels_def)
qed

lemma list_ex_sublist:
  "m \<in> set ws \<Longrightarrow> sublist m x \<Longrightarrow> list_ex (\<lambda>word. sublist word x) ws"
  by (auto simp: list_ex_iff)

text \<open>
  C10. The three marker tests are containment tests on the lowercased question: each
  holds exactly when some listed marker is a substring of it. So a marker that occurs
  anywhere in the lowercased text, also inside a longer word, sets the test and earns
  its share of the structural complexity: 0.4 instead of 0.1 for a subordinating
  conjunction, 0.2 for a coordinating or transition word, 0.2 for a modal word.
\<close>

theorem structural_markers_by_containment:
  "(has_subordination q \<longleftrightarrow>
      (\<exists>m. m \<in> set [''because'', ''although'', ''while'', ''if'', ''when'', ''unless'', ''since'']
           \<and> sublist m (lower q))) \<and>
   (has_coordination q \<longleftrightarrow>
      (\<exists>m. m \<in> set [''and'', ''but'', ''or'', ''however'', ''therefore'', ''thus'']
           \<and> sublist m (lower q))) \<and>
   (has_conditionals q \<longleftrightarrow>
      (\<exists>m. m \<in> set [''would'', ''could'', ''might'', ''should''] \<and> sublist m (lower q))) \<and>
   (sublist m (lower q) \<longrightarrow>
      (m \<in> set [''because'', ''although'', ''while'', ''if'', ''when'', ''unless'', ''since'']
         \<longrightarrow> structural_complexity q =
               4/10 + (if has_coordination q then 2/10 else 0)
                    + (if has_conditionals q then 2/10 else 0)) \<and>
      (m \<in> set [''and'', ''but'', ''or'', ''however'', ''therefore'', ''thus'']
         \<longrightarrow> structural_complexity q =
               (if has_subordination q then 4/10 else 1/10) + 2/10
                    + (if has_conditionals q then 2/10 else 0)) \<and>
      (m \<in> set [''would'', ''could'', ''might'', ''should'']
         \<longrightarrow> structural_complexity q =
               (if has_subordination q then 4/10 else 1/10)
                    + (if has_coordination q then 2/10 else 0) + 2/10))"
proof -
  have iffs:
    "has_subordination q \<longleftrightarrow>
      (\<exists>m. m \<in> set [''because'', ''although'', ''while'', ''if'', ''when'', ''unless'', ''since'']
           \<and> sublist m (lower q))"
    "has_coordination q \<longleftrightarrow>
      (\<exists>m. m \<in> set [''and'', ''but'', ''or'', ''however'', ''therefore'', ''thus'']
           \<and> sublist m (lower q))"
    "has_conditionals q \<longleftrightarrow>
      (\<exists>m. m \<in> set [''would'', ''could'', ''might'', ''should''] \<and> sublist m (lower q))"
    unfolding has_subordination_def has_coordination_def has_conditionals_def list_ex_iff
    by blast+
  have sub: "sublist m (lower q) \<Longrightarrow>
      m \<in> set [''because'', ''although'', ''while'', ''if'', ''when'', ''unless'', ''since'']
      \<Longrightarrow> has_subordination q"
    unfolding has_subordination_def by (rule list_ex_sublist)
  have coo: "sublist m (lower q) \<Longrightarrow>
      m \<in> set [''and'', ''but'', ''or'', ''however'', ''therefore'', ''thus'']
      \<Longrightarrow> has_coordination q"
    unfolding has_coordination_def by (rule list_ex_sublist)
  have con: "sublist m (lower q) \<Longrightarrow>
      m \<in> set [''would'', ''could'', ''might'', ''should''] \<Longrightarrow> has_conditionals q"
    unfolding has_conditionals_def by (rule list_ex_sublist)
  have c1: "structural_complexity q =
               4/10 + (if has_coordination q then 2/10 else 0)
                    + (if has_conditionals q then 2/10 else 0)"
    if "sublist m (lower q)"
       "m \<in> set [''because'', ''although'', ''while'', ''if'', ''when'', ''unless'', ''since'']"
    using sub[OF that] by (simp add: structural_complexity_def)
  have c2: "structural_complexity q =
               (if has_subordination q then 4/10 else 1/10) + 2/10
                    + (if has_conditionals q then 2/10 else 0)"
    if "sublist m (lower q)"
       "m \<in> set [''and'', ''but'', ''or'', ''however'', ''therefore'', ''thus'']"
    using coo[OF that] by (simp add: structural_complexity_def)
  have c3: "structural_complexity q =
               (if has_subordination q then 4/10 else 1/10)
                    + (if has_coordination q then 2/10 else 0) + 2/10"
    if "sublist m (lower q)" "m \<in> set [''would'', ''could'', ''might'', ''should'']"
    using con[OF that] by (simp add: structural_complexity_def)
  show ?thesis
    by (intro conjI impI) (rule iffs c1 c2 c3; assumption?)+
qed

text \<open>
  Three examples: "if" inside "wife", "and" inside "sandwich", "or"
  inside "before". None of the three questions has the marker as a word of its own.
\<close>

theorem structural_markers_by_containment_witness:
  "sublist ''if'' (lower ''My wife'') \<and> ''if'' \<notin> set (split (lower ''My wife'')) \<and>
   has_subordination ''My wife'' \<and> structural_complexity ''My wife'' = 4/10 \<and>
   sublist ''and'' (lower ''A sandwich'') \<and> ''and'' \<notin> set (split (lower ''A sandwich'')) \<and>
   has_coordination ''A sandwich'' \<and> structural_complexity ''A sandwich'' = 3/10 \<and>
   sublist ''or'' (lower ''Before'') \<and> ''or'' \<notin> set (split (lower ''Before'')) \<and>
   has_coordination ''Before'' \<and> structural_complexity ''Before'' = 3/10"
proof -
  have s: "sublist ''if'' (lower ''My wife'')" "sublist ''and'' (lower ''A sandwich'')"
          "sublist ''or'' (lower ''Before'')"
    by code_simp+
  have w: "''if'' \<notin> set (split (lower ''My wife''))"
          "''and'' \<notin> set (split (lower ''A sandwich''))"
          "''or'' \<notin> set (split (lower ''Before''))"
    by code_simp+
  have n: "\<not> has_coordination ''My wife''" "\<not> has_conditionals ''My wife''"
          "\<not> has_subordination ''A sandwich''" "\<not> has_conditionals ''A sandwich''"
          "\<not> has_subordination ''Before''" "\<not> has_conditionals ''Before''"
    by code_simp+
  have m: "''if'' \<in> set [''because'', ''although'', ''while'', ''if'', ''when'', ''unless'', ''since'']"
          "''and'' \<in> set [''and'', ''but'', ''or'', ''however'', ''therefore'', ''thus'']"
          "''or'' \<in> set [''and'', ''but'', ''or'', ''however'', ''therefore'', ''thus'']"
    by simp_all
  note t1 = structural_markers_by_containment[of "''My wife''" "''if''"]
  note t2 = structural_markers_by_containment[of "''A sandwich''" "''and''"]
  note t3 = structural_markers_by_containment[of "''Before''" "''or''"]
  have h: "has_subordination ''My wife''" "has_coordination ''A sandwich''"
          "has_coordination ''Before''"
    by (rule iffD2[OF conjunct1[OF t1]], intro exI conjI, rule m(1), rule s(1))
       (rule iffD2[OF conjunct1[OF conjunct2[OF t2]]], intro exI conjI, rule m(2), rule s(2),
        rule iffD2[OF conjunct1[OF conjunct2[OF t3]]], intro exI conjI, rule m(3), rule s(3))
  note d1 = mp[OF conjunct2[OF conjunct2[OF conjunct2[OF t1]]] s(1)]
  note d2 = mp[OF conjunct2[OF conjunct2[OF conjunct2[OF t2]]] s(2)]
  note d3 = mp[OF conjunct2[OF conjunct2[OF conjunct2[OF t3]]] s(3)]
  note c1 = mp[OF conjunct1[OF d1] m(1)]
  note c2 = mp[OF conjunct1[OF conjunct2[OF d2]] m(2)]
  note c3 = mp[OF conjunct1[OF conjunct2[OF d3]] m(3)]
  have c: "structural_complexity ''My wife'' = 4/10"
          "structural_complexity ''A sandwich'' = 3/10"
          "structural_complexity ''Before'' = 3/10"
    by (simp_all only: c1 c2 c3 n if_False)
  show ?thesis using s w h c by (simp only: simp_thms)
qed

end
